theory Spec2Isabelle
  imports Main "HOL-Library.AList" "HOL-Library.Sublist" "HOL-Library.Char_ord"
    "HOL-Library.List_Lexorder"
begin

section \<open>The tool registry of the MCP server template\<close>

text \<open>
  A shallow embedding of \<^verbatim>\<open>src/tools/tool-registry.js\<close>: the class \<^verbatim>\<open>ToolRegistry\<close>
  with \<^verbatim>\<open>registerTool\<close>, \<^verbatim>\<open>getTools\<close>, \<^verbatim>\<open>executeTool\<close>, \<^verbatim>\<open>hasTool\<close> and
  \<^verbatim>\<open>loadCustomTools\<close>, and the handlers of the built-in tools \<^verbatim>\<open>list_items\<close>,
  \<^verbatim>\<open>add_item\<close> and \<^verbatim>\<open>remove_item\<close>.

  Conventions of the embedding.
  \<^item> A JavaScript \<^verbatim>\<open>throw\<close> (for an \<^verbatim>\<open>async\<close> function: a rejected promise) is the
    left summand of a sum type. Any value can be thrown; the code reads only the
    property \<^verbatim>\<open>message\<close> of what it catches, so a thrown value is told apart by what that
    read gives.
  \<^item> A property that may be missing (\<^verbatim>\<open>undefined\<close>) is an \<open>option\<close>. Values are typed as
    the tool schema of the README declares them: names and descriptions are strings,
    an \<^verbatim>\<open>inputSchema\<close> is a JSON object, a handler is a function. A string is falsy
    when it is empty, a number when it is \<open>0\<close>; objects and functions are truthy.
  \<^item> The \<^verbatim>\<open>Map\<close> in \<^verbatim>\<open>this.tools\<close> is an association list in insertion order;
    \<^verbatim>\<open>Map.set\<close> is \<open>AList.update\<close> (an existing key keeps its position, a new key goes
    to the end) and \<^verbatim>\<open>Map.get\<close> is \<open>map_of\<close>.
  \<^item> What a handler reads and writes outside its arguments is a world value that is
    passed in and returned.
\<close>

subsection \<open>Values\<close>

text \<open>
  A thrown value: an object whose \<^verbatim>\<open>message\<close> is the given text (an \<^verbatim>\<open>Error\<close>, a
  \<^verbatim>\<open>TypeError\<close>, ...), \<^verbatim>\<open>null\<close>, \<^verbatim>\<open>undefined\<close> (as of \<^verbatim>\<open>Promise.reject()\<close>), or a string;
  any other value without a \<^verbatim>\<open>message\<close> behaves as a string does.
\<close>

datatype js_error =
    Error string
  | ThrownNull
  | ThrownUndefined
  | ThrownString string

datatype json =
    JNull
  | JBool bool
  | JNum int
  | JStr string
  | JArr "json list"
  | JObj "(string \<times> json) list"

type_synonym json_object = "(string \<times> json) list"

text \<open>The text \<^verbatim>\<open>'${s}'\<close> of a template literal: \<open>s\<close> between two apostrophes.\<close>

definition squote :: "string \<Rightarrow> string" where
  "squote s = CHR 0x27 # s @ [CHR 0x27]"

text \<open>
  \<^verbatim>\<open>${error.message}\<close> in a template literal, for a caught \<open>error\<close>: reading a property
  of \<^verbatim>\<open>null\<close> or \<^verbatim>\<open>undefined\<close> throws a \<^verbatim>\<open>TypeError\<close>; a string has no such property and
  \<^verbatim>\<open>undefined\<close> is interpolated.
\<close>

fun read_message :: "js_error \<Rightarrow> js_error + string" where
  "read_message (Error m) = Inr m"
| "read_message ThrownNull =
     Inl (Error (''Cannot read properties of null (reading '' @ squote ''message'' @ '')''))"
| "read_message ThrownUndefined =
     Inl (Error (''Cannot read properties of undefined (reading '' @ squote ''message'' @ '')''))"
| "read_message (ThrownString s) = Inr ''undefined''"


text \<open>\<^verbatim>\<open>Number.prototype.toString\<close> on a natural number: its decimal digits.\<close>

definition digit :: "nat \<Rightarrow> char" where
  "digit d = ''0123456789'' ! d"

fun toString :: "nat \<Rightarrow> string" where
  "toString n = (if n < 10 then [digit n] else toString (n div 10) @ [digit (n mod 10)])"

declare toString.simps [simp del]

text \<open>
  \<^verbatim>\<open>Array.prototype.slice(0, end)\<close> for an integer \<open>end\<close>: a negative \<open>end\<close> counts
  from the end of the array.
\<close>

definition slice0 :: "'a list \<Rightarrow> int \<Rightarrow> 'a list" where
  "slice0 xs end = (if end < 0 then take (nat (int (length xs) + end)) xs else take (nat end) xs)"

subsection \<open>Tool descriptors and the registry\<close>

type_synonym ('a, 'r, 'w) handler_fn = "'a \<Rightarrow> 'w \<Rightarrow> (js_error + 'r) \<times> 'w"

text \<open>The object passed to \<^verbatim>\<open>registerTool\<close>: every property may be missing.\<close>

record ('a, 'r, 'w) tool =
  name :: "string option"
  description :: "string option"
  inputSchema :: "json_object option"
  handler :: "('a, 'r, 'w) handler_fn option"

text \<open>The object that \<^verbatim>\<open>registerTool\<close> stores in the map: every property is present.\<close>

record ('a, 'r, 'w) entry =
  entry_name :: string
  entry_description :: string
  entry_inputSchema :: json_object
  entry_handler :: "('a, 'r, 'w) handler_fn"

text \<open>The objects that \<^verbatim>\<open>getTools\<close> returns.\<close>

record tool_info =
  info_name :: string
  info_description :: string
  info_inputSchema :: json_object

type_synonym ('a, 'r, 'w) tools = "(string \<times> ('a, 'r, 'w) entry) list"

definition default_inputSchema :: json_object where
  "default_inputSchema = [(''type'', JStr ''object''), (''properties'', JObj [])]"

text \<open>\<^verbatim>\<open>tool.description || ''\<close> and \<^verbatim>\<open>tool.inputSchema || {type: 'object', properties: {}}\<close>.\<close>

definition description_or_default :: "string option \<Rightarrow> string" where
  "description_or_default d = (case d of None \<Rightarrow> [] | Some s \<Rightarrow> if s = [] then [] else s)"

definition inputSchema_or_default :: "json_object option \<Rightarrow> json_object" where
  "inputSchema_or_default s = (case s of None \<Rightarrow> default_inputSchema | Some obj \<Rightarrow> obj)"

definition registerTool ::
  "('a, 'r, 'w) tool \<Rightarrow> ('a, 'r, 'w) tools \<Rightarrow> js_error + ('a, 'r, 'w) tools" where
  "registerTool tool tools =
     (case name tool of
        None \<Rightarrow> Inl (Error ''Tool must have a name and handler'')
      | Some n \<Rightarrow>
          if n = [] then Inl (Error ''Tool must have a name and handler'')
          else
            (case handler tool of
               None \<Rightarrow> Inl (Error ''Tool must have a name and handler'')
             | Some h \<Rightarrow>
                 Inr (AList.update n
                   \<lparr>entry_name = n,
                    entry_description = description_or_default (description tool),
                    entry_inputSchema = inputSchema_or_default (inputSchema tool),
                    entry_handler = h\<rparr> tools)))"

definition getTools :: "('a, 'r, 'w) tools \<Rightarrow> tool_info list" where
  "getTools tools =
     map (\<lambda>tool. \<lparr>info_name = entry_name tool,
                  info_description = entry_description tool,
                  info_inputSchema = entry_inputSchema tool\<rparr>) (map snd tools)"

definition executeTool ::
  "('a, 'r, 'w) tools \<Rightarrow> string \<Rightarrow> 'a \<Rightarrow> 'w \<Rightarrow> (js_error + 'r) \<times> 'w" where
  "executeTool tools nm args w =
     (case map_of tools nm of
        None \<Rightarrow> (Inl (Error (''Tool '' @ squote nm @ '' not found'')), w)
      | Some tool \<Rightarrow>
          (case entry_handler tool args w of
             (Inr result, w') \<Rightarrow> (Inr result, w')
           | (Inl error, w') \<Rightarrow>
               (case read_message error of
                  Inl typeError \<Rightarrow> (Inl typeError, w')
                | Inr m \<Rightarrow>
                    (Inl (Error (''Tool '' @ squote nm @ '' execution failed: '' @ m)), w'))))"

definition hasTool :: "('a, 'r, 'w) tools \<Rightarrow> string \<Rightarrow> bool" where
  "hasTool tools nm = (case map_of tools nm of None \<Rightarrow> False | Some _ \<Rightarrow> True)"

subsection \<open>Loading custom tools\<close>










subsection \<open>The built-in item handlers\<close>

text \<open>
  The handlers work on the document \<^verbatim>\<open>items.json\<close> in the data directory: \<open>dataFile\<close> is
  \<open>None\<close> when the file does not exist and the list \<^verbatim>\<open>data.items\<close> otherwise. The clock
  is the sequence of the readings it will give, \<open>clock w k\<close> being the \<open>k\<close>-th one in
  milliseconds, of which \<open>ticks w\<close> have been taken. \<^verbatim>\<open>createdAt\<close> holds the instant
  that the ISO text of the source denotes. Reading and writing the document succeed.
\<close>

record item =
  item_id :: string
  item_name :: string
  item_description :: string
  item_metadata :: json_object
  item_createdAt :: nat

record world =
  dataFile :: "item list option"
  clock :: "nat \<Rightarrow> nat"
  ticks :: nat

record list_args =
  arg_filter :: "string option"
  arg_limit :: "int option"

record list_result =
  res_items :: "item list"
  res_count :: nat

record add_args =
  arg_name :: string
  arg_description :: string
  arg_metadata :: "json_object option"

record add_result =
  add_success :: bool
  add_item_of :: item
  add_message :: string

record remove_args =
  arg_id :: string

record remove_result =
  remove_success :: bool
  remove_message :: string

text \<open>
  \<^verbatim>\<open>list_items\<close>. The regular-expression engine is a parameter: \<open>RegExp p\<close> is
  \<^verbatim>\<open>new RegExp(p, 'i')\<close>, which throws on a malformed pattern and otherwise gives the
  predicate \<^verbatim>\<open>test\<close>.
\<close>

definition list_items ::
  "(string \<Rightarrow> js_error + (string \<Rightarrow> bool)) \<Rightarrow> list_args \<Rightarrow> world \<Rightarrow> (js_error + list_result) \<times> world" where
  "list_items RegExp args w =
     (case dataFile w of
        None \<Rightarrow> (Inr \<lparr>res_items = [], res_count = 0\<rparr>, w)
      | Some data \<Rightarrow>
          (case (case arg_filter args of
                   None \<Rightarrow> Inr data
                 | Some f \<Rightarrow>
                     if f = [] then Inr data
                     else (case RegExp f of
                             Inl error \<Rightarrow> Inl error
                           | Inr test \<Rightarrow>
                               Inr (filter (\<lambda>item. test (item_name item) \<or> test (item_description item)) data)))
           of
             Inl error \<Rightarrow> (Inl error, w)
           | Inr items \<Rightarrow>
               (let items' = (case arg_limit args of
                                None \<Rightarrow> items
                              | Some l \<Rightarrow> if l = 0 then items else slice0 items l)
                in (Inr \<lparr>res_items = items', res_count = length items'\<rparr>, w))))"

definition add_item :: "add_args \<Rightarrow> world \<Rightarrow> (js_error + add_result) \<times> world" where
  "add_item args w =
     (let data = (case dataFile w of None \<Rightarrow> [] | Some d \<Rightarrow> d);
          newItem = \<lparr>item_id = toString (clock w (ticks w)),
                     item_name = arg_name args,
                     item_description = arg_description args,
                     item_metadata = (case arg_metadata args of None \<Rightarrow> [] | Some m \<Rightarrow> m),
                     item_createdAt = clock w (ticks w + 1)\<rparr>
      in (Inr \<lparr>add_success = True,
               add_item_of = newItem,
               add_message = ''Item '' @ squote (arg_name args) @ '' added successfully''\<rparr>,
          w\<lparr>dataFile := Some (data @ [newItem]), ticks := ticks w + 2\<rparr>))"

definition remove_item :: "remove_args \<Rightarrow> world \<Rightarrow> (js_error + remove_result) \<times> world" where
  "remove_item args w =
     (case dataFile w of
        None \<Rightarrow> (Inl (Error ''No items found''), w)
      | Some data \<Rightarrow>
          (let initialLength = length data;
               data' = filter (\<lambda>item. item_id item \<noteq> arg_id args) data
           in if length data' = initialLength
              then (Inl (Error (''Item with ID '' @ squote (arg_id args) @ '' not found'')), w)
              else (Inr \<lparr>remove_success = True,
                        remove_message = ''Item '' @ squote (arg_id args) @ '' removed successfully''\<rparr>,
                    w\<lparr>dataFile := Some data'\<rparr>)))"

subsection \<open>Notions used to state the properties\<close>

text \<open>
  A descriptor that \<^verbatim>\<open>registerTool\<close> accepts, and what \<^verbatim>\<open>getTools\<close> shows of it once it
  is registered.
\<close>

definition wellFormed :: "('a, 'r, 'w) tool \<Rightarrow> bool" where
  "wellFormed d =
     (case name d of
        None \<Rightarrow> False
      | Some n \<Rightarrow> n \<noteq> [] \<and> (case handler d of None \<Rightarrow> False | Some _ \<Rightarrow> True))"

definition info_of :: "('a, 'r, 'w) tool \<Rightarrow> tool_info" where
  "info_of d =
     \<lparr>info_name = (case name d of None \<Rightarrow> [] | Some n \<Rightarrow> n),
      info_description = (case description d of None \<Rightarrow> [] | Some s \<Rightarrow> s),
      info_inputSchema = (case inputSchema d of None \<Rightarrow> default_inputSchema | Some obj \<Rightarrow> obj)\<rparr>"

text \<open>
  A sequence of calls of \<^verbatim>\<open>registerTool\<close>, a call that throws leaving the map as it is
  (the caller catches, as the loader does).
\<close>

fun registerAll :: "('a, 'r, 'w) tool list \<Rightarrow> ('a, 'r, 'w) tools \<Rightarrow> ('a, 'r, 'w) tools" where
  "registerAll [] tools = tools"
| "registerAll (d # ds) tools =
     registerAll ds (case registerTool d tools of Inl _ \<Rightarrow> tools | Inr tools' \<Rightarrow> tools')"

text \<open>The last well-formed descriptor of a sequence that carries a given name.\<close>

fun last_named :: "string \<Rightarrow> ('a, 'r, 'w) tool list \<Rightarrow> ('a, 'r, 'w) tool option" where
  "last_named n [] = None"
| "last_named n (d # ds) =
     (case last_named n ds of
        Some d' \<Rightarrow> Some d'
      | None \<Rightarrow> if wellFormed d \<and> name d = Some n then Some d else None)"

text \<open>
  The invariant of the map: keys are distinct and every entry is stored under its own
  name.
\<close>

definition registry_ok :: "('a, 'r, 'w) tools \<Rightarrow> bool" where
  "registry_ok tools =
     (distinct (map fst tools) \<and> list_all (\<lambda>p. entry_name (snd p) = fst p \<and> fst p \<noteq> []) tools)"



text \<open>
  The same registry with every handler made to record its own invocation: the world
  is paired with the list of the names under which handlers have run.
\<close>

definition traced_handler ::
  "string \<Rightarrow> ('a, 'r, 'w) handler_fn \<Rightarrow> ('a, 'r, 'w \<times> string list) handler_fn" where
  "traced_handler k f args st =
     (case st of (w, calls) \<Rightarrow>
        (case f args w of (result, w') \<Rightarrow> (result, (w', calls @ [k]))))"

definition traced :: "('a, 'r, 'w) tools \<Rightarrow> ('a, 'r, 'w \<times> string list) tools" where
  "traced tools =
     map (\<lambda>p. (fst p,
        \<lparr>entry_name = entry_name (snd p),
         entry_description = entry_description (snd p),
         entry_inputSchema = entry_inputSchema (snd p),
         entry_handler = traced_handler (fst p) (entry_handler (snd p))\<rparr>)) tools"

subsection \<open>Example inputs\<close>

text \<open>
  Three descriptors of one name: the built-in \<^verbatim>\<open>remove_item\<close> and two custom ones. A
  host whose directory \<^verbatim>\<open>/srv/custom-tools\<close> holds \<^verbatim>\<open>a.js\<close> and \<^verbatim>\<open>b.js\<close> (exporting
  the two custom descriptors), \<^verbatim>\<open>broken.js\<close> (its import throws), \<^verbatim>\<open>helper.js\<close> (no
  default export), \<^verbatim>\<open>nameless.js\<close> (a default export without a name) and
  \<^verbatim>\<open>notes.txt\<close>.
\<close>

definition builtin_remove_item :: "(remove_args, remove_result, world) tool" where
  "builtin_remove_item =
     \<lparr>name = Some ''remove_item'',
      description = Some ''Remove an item from the system'',
      inputSchema = Some [(''type'', JStr ''object''),
        (''properties'', JObj [(''id'', JObj [(''type'', JStr ''string''),
           (''description'', JStr ''Item ID to remove'')])]),
        (''required'', JArr [JStr ''id''])],
      handler = Some remove_item\<rparr>"


definition custom_b :: "(remove_args, remove_result, world) tool" where
  "custom_b =
     \<lparr>name = Some ''remove_item'', description = None, inputSchema = None,
      handler = Some remove_item\<rparr>"

definition nameless :: "(remove_args, remove_result, world) tool" where
  "nameless =
     \<lparr>name = None, description = Some ''no name'', inputSchema = None,
      handler = Some remove_item\<rparr>"




text \<open>
  Three custom handlers that fail without an \<^verbatim>\<open>Error\<close> object: \<^verbatim>\<open>Promise.reject()\<close>,
  \<^verbatim>\<open>throw null\<close> and \<^verbatim>\<open>throw 'boom'\<close>; and the registry that holds them.
\<close>

definition reject_undefined :: "(remove_args, remove_result, world) handler_fn" where
  "reject_undefined args w = (Inl ThrownUndefined, w)"

definition throw_null :: "(remove_args, remove_result, world) handler_fn" where
  "throw_null args w = (Inl ThrownNull, w)"

definition throw_string :: "(remove_args, remove_result, world) handler_fn" where
  "throw_string args w = (Inl (ThrownString ''boom''), w)"

definition failing_tools :: "(remove_args, remove_result, world) tools" where
  "failing_tools =
     registerAll
       [\<lparr>name = Some ''reject_undefined'', description = None, inputSchema = None,
          handler = Some reject_undefined\<rparr>,
        \<lparr>name = Some ''throw_null'', description = None, inputSchema = None,
          handler = Some throw_null\<rparr>,
        \<lparr>name = Some ''throw_string'', description = None, inputSchema = None,
          handler = Some throw_string\<rparr>] []"

text \<open>
  A world with two stored items whose clock advances by one millisecond at each
  reading, and a world without the document whose clock gives the same millisecond at
  every reading.
\<close>

definition item_one :: item where
  "item_one =
     \<lparr>item_id = ''1700000000000'', item_name = ''A'', item_description = ''first'',
      item_metadata = [], item_createdAt = 1700000000000\<rparr>"

definition item_two :: item where
  "item_two =
     \<lparr>item_id = ''1700000000005'', item_name = ''B'', item_description = ''second'',
      item_metadata = [], item_createdAt = 1700000000005\<rparr>"

definition example_world :: world where
  "example_world =
     \<lparr>dataFile = Some [item_one, item_two], clock = (\<lambda>k. 1700000000010 + k), ticks = 0\<rparr>"

definition stalled_world :: world where
  "stalled_world = \<lparr>dataFile = None, clock = (\<lambda>k. 1700000000000), ticks = 0\<rparr>"

section \<open>Registration\<close>

lemma registerTool_Inr_iff:
  "registerTool tool tools = Inr tools' \<longleftrightarrow>
     (\<exists>n h. name tool = Some n \<and> n \<noteq> [] \<and> handler tool = Some h \<and>
        tools' = AList.update n
          \<lparr>entry_name = n,
           entry_description = description_or_default (description tool),
           entry_inputSchema = inputSchema_or_default (inputSchema tool),
           entry_handler = h\<rparr> tools)"
  by (auto simp: registerTool_def split: option.splits)

lemma registerTool_Inl_iff:
  "registerTool tool tools = Inl e \<longleftrightarrow>
     (e = Error ''Tool must have a name and handler'' \<and>
      (name tool = None \<or> name tool = Some [] \<or> handler tool = None))"
  by (auto simp: registerTool_def split: option.splits)

lemma update_filter_others:
  "filter (\<lambda>p. fst p \<noteq> k) (AList.update k v al) = filter (\<lambda>p. fst p \<noteq> k) al"
  by (induction al) auto

lemma update_filter_key:
  "distinct (map fst al) \<Longrightarrow> filter (\<lambda>p. fst p = k) (AList.update k v al) = [(k, v)]"
proof (induction al)
  case Nil
  then show ?case by simp
next
  case (Cons p ps)
  show ?case
  proof (cases "fst p = k")
    case True
    with Cons.prems have "k \<notin> fst ` set ps" by auto
    then have "filter (\<lambda>p. fst p = k) ps = []"
      by (auto simp: filter_empty_conv)
    with True show ?thesis by simp
  next
    case False
    with Cons show ?thesis by simp
  qed
qed

text \<open>
  Claim C3. \<^verbatim>\<open>registerTool\<close> throws exactly when the name of the descriptor is
  missing or empty or its handler is missing, and what it throws is the error
  \<^verbatim>\<open>Tool must have a name and handler\<close>. When it does not throw, the map has under that
  name the entry built from the descriptor, every other key maps to what it mapped to
  before, and the other entries are the same, in the same order; the keys stay
  distinct, so there is exactly one entry of that name.
\<close>

theorem registerTool_fails_iff_invalid:
  "((\<exists>e. registerTool tool tools = Inl e) \<longleftrightarrow>
      (name tool = None \<or> name tool = Some [] \<or> handler tool = None)) \<and>
   (registerTool tool tools = Inl e \<longrightarrow> e = Error ''Tool must have a name and handler'') \<and>
   (registerTool tool tools = Inr tools' \<longrightarrow>
      (\<exists>n h. name tool = Some n \<and> handler tool = Some h \<and>
         map_of tools' n =
           Some \<lparr>entry_name = n,
                 entry_description = description_or_default (description tool),
                 entry_inputSchema = inputSchema_or_default (inputSchema tool),
                 entry_handler = h\<rparr> \<and>
         (\<forall>k. k \<noteq> n \<longrightarrow> map_of tools' k = map_of tools k) \<and>
         filter (\<lambda>p. fst p \<noteq> n) tools' = filter (\<lambda>p. fst p \<noteq> n) tools \<and>
         (distinct (map fst tools) \<longrightarrow>
            distinct (map fst tools') \<and> length (filter (\<lambda>p. fst p = n) tools') = 1)))"
proof (intro conjI impI)
  show "(\<exists>e. registerTool tool tools = Inl e) \<longleftrightarrow>
      (name tool = None \<or> name tool = Some [] \<or> handler tool = None)"
    by (simp add: registerTool_Inl_iff)
next
  assume "registerTool tool tools = Inl e"
  then show "e = Error ''Tool must have a name and handler''"
    by (simp add: registerTool_Inl_iff)
next
  assume "registerTool tool tools = Inr tools'"
  then obtain n h where nh: "name tool = Some n" "handler tool = Some h"
    and t': "tools' = AList.update n
          \<lparr>entry_name = n,
           entry_description = description_or_default (description tool),
           entry_inputSchema = inputSchema_or_default (inputSchema tool),
           entry_handler = h\<rparr> tools"
    unfolding registerTool_Inr_iff by blast
  show "\<exists>n h. name tool = Some n \<and> handler tool = Some h \<and>
         map_of tools' n =
           Some \<lparr>entry_name = n,
                 entry_description = description_or_default (description tool),
                 entry_inputSchema = inputSchema_or_default (inputSchema tool),
                 entry_handler = h\<rparr> \<and>
         (\<forall>k. k \<noteq> n \<longrightarrow> map_of tools' k = map_of tools k) \<and>
         filter (\<lambda>p. fst p \<noteq> n) tools' = filter (\<lambda>p. fst p \<noteq> n) tools \<and>
         (distinct (map fst tools) \<longrightarrow>
            distinct (map fst tools') \<and> length (filter (\<lambda>p. fst p = n) tools') = 1)"
    using nh by (simp add: t' update_conv' update_filter_others update_filter_key distinct_update)
qed

theorem registerTool_fails_iff_invalid_witness:
  "registerTool \<lparr>name = Some ''echo'', description = None, inputSchema = None,
       handler = Some (\<lambda>(a::nat) (w::nat). (Inr a, Suc w))\<rparr> [] =
     Inr [(''echo'', \<lparr>entry_name = ''echo'', entry_description = [],
            entry_inputSchema = default_inputSchema,
            entry_handler = (\<lambda>(a::nat) (w::nat). (Inr a, Suc w))\<rparr>)] \<and>
   (\<exists>n h. Some ''echo'' = Some n \<and> Some (\<lambda>(a::nat) (w::nat). (Inr a :: js_error + nat, Suc w)) = Some h \<and>
      map_of [(''echo'', \<lparr>entry_name = ''echo'', entry_description = [],
            entry_inputSchema = default_inputSchema,
            entry_handler = (\<lambda>(a::nat) (w::nat). (Inr a, Suc w))\<rparr>)] n =
        Some \<lparr>entry_name = n, entry_description = [],
            entry_inputSchema = default_inputSchema, entry_handler = h\<rparr>) \<and>
   registerTool \<lparr>name = Some [], description = None, inputSchema = None,
       handler = Some (\<lambda>(a::nat) (w::nat). (Inr a :: js_error + nat, Suc w))\<rparr> [] =
     Inl (Error ''Tool must have a name and handler'')"
  using registerTool_fails_iff_invalid
    [of "\<lparr>name = Some ''echo'', description = None, inputSchema = None,
          handler = Some (\<lambda>(a::nat) (w::nat). (Inr a, Suc w))\<rparr>" "[]" "Error []"
        "[(''echo'', \<lparr>entry_name = ''echo'', entry_description = [],
            entry_inputSchema = default_inputSchema,
            entry_handler = (\<lambda>(a::nat) (w::nat). (Inr a, Suc w))\<rparr>)]"]
    registerTool_fails_iff_invalid
    [of "\<lparr>name = Some [], description = None, inputSchema = None,
          handler = Some (\<lambda>(a::nat) (w::nat). (Inr a :: js_error + nat, Suc w))\<rparr>" "[]"
        "Error ''Tool must have a name and handler''" "[]"]
  by (simp add: registerTool_def description_or_default_def inputSchema_or_default_def)

text \<open>
  Claim C4, as stated, at a descriptor with a name and a handler and nothing else:
  the entry found under its name has the description \<^verbatim>\<open>''\<close> and the default schema,
  which the descriptor does not have.
\<close>

theorem register_then_lookup_counterexample:
  "registerTool \<lparr>name = Some ''remove_item'', description = None, inputSchema = None,
       handler = Some remove_item\<rparr> [] =
     Inr [(''remove_item'', \<lparr>entry_name = ''remove_item'', entry_description = [],
            entry_inputSchema = default_inputSchema, entry_handler = remove_item\<rparr>)] \<and>
   map_of [(''remove_item'', \<lparr>entry_name = ''remove_item'', entry_description = [],
            entry_inputSchema = default_inputSchema, entry_handler = remove_item\<rparr>)] ''remove_item'' =
     Some \<lparr>entry_name = ''remove_item'', entry_description = [],
            entry_inputSchema = default_inputSchema, entry_handler = remove_item\<rparr> \<and>
   description \<lparr>name = Some ''remove_item'', description = None, inputSchema = None,
       handler = Some remove_item\<rparr> \<noteq>
     Some (entry_description \<lparr>entry_name = ''remove_item'', entry_description = [],
            entry_inputSchema = default_inputSchema, entry_handler = remove_item\<rparr>) \<and>
   inputSchema \<lparr>name = Some ''remove_item'', description = None, inputSchema = None,
       handler = Some remove_item\<rparr> \<noteq>
     Some (entry_inputSchema \<lparr>entry_name = ''remove_item'', entry_description = [],
            entry_inputSchema = default_inputSchema, entry_handler = remove_item\<rparr>)"
  by (simp add: registerTool_def description_or_default_def inputSchema_or_default_def)

text \<open>
  Claim C4, amended. For a descriptor with a non-empty name and a handler,
  \<^verbatim>\<open>registerTool\<close> succeeds and the map then has, under that name, an entry with the
  same name and the same handler, with the description of the descriptor or \<^verbatim>\<open>''\<close> when
  it has none, and with its schema or \<^verbatim>\<open>{type: 'object', properties: {}}\<close> when it has
  none; \<^verbatim>\<open>hasTool\<close> holds of the name and \<^verbatim>\<open>executeTool\<close> runs that handler. A descriptor
  that has all four properties is found again unchanged.
\<close>

theorem register_then_lookup:
  assumes "name d = Some n" and "n \<noteq> []" and "handler d = Some h"
  shows "\<exists>tools' e. registerTool d tools = Inr tools' \<and> map_of tools' n = Some e \<and>
           hasTool tools' n \<and>
           entry_name e = n \<and> entry_handler e = h \<and>
           entry_description e = (case description d of None \<Rightarrow> [] | Some s \<Rightarrow> s) \<and>
           entry_inputSchema e =
             (case inputSchema d of None \<Rightarrow> default_inputSchema | Some obj \<Rightarrow> obj) \<and>
           executeTool tools' n args w = executeTool [(n, e)] n args w \<and>
           (\<forall>s obj. description d = Some s \<and> inputSchema d = Some obj \<longrightarrow>
              d = \<lparr>name = Some (entry_name e), description = Some (entry_description e),
                   inputSchema = Some (entry_inputSchema e), handler = Some (entry_handler e)\<rparr>)"
proof -
  let ?e = "\<lparr>entry_name = n,
             entry_description = description_or_default (description d),
             entry_inputSchema = inputSchema_or_default (inputSchema d),
             entry_handler = h\<rparr>"
  have r: "registerTool d tools = Inr (AList.update n ?e tools)"
    using assms by (simp add: registerTool_def)
  have m: "map_of (AList.update n ?e tools) n = Some ?e"
    by (simp add: update_conv')
  have x: "executeTool (AList.update n ?e tools) n args w = executeTool [(n, ?e)] n args w"
    by (simp add: executeTool_def m)
  have d: "\<forall>s obj. description d = Some s \<and> inputSchema d = Some obj \<longrightarrow>
      d = \<lparr>name = Some (entry_name ?e), description = Some (entry_description ?e),
           inputSchema = Some (entry_inputSchema ?e), handler = Some (entry_handler ?e)\<rparr>"
    using assms by (auto simp: description_or_default_def inputSchema_or_default_def)
  show ?thesis
    using r m x d
    by (intro exI [of _ "AList.update n ?e tools"] exI [of _ ?e])
       (simp add: hasTool_def description_or_default_def inputSchema_or_default_def
          split: option.splits)
qed

theorem register_then_lookup_witness:
  "name \<lparr>name = Some ''remove_item'', description = Some ''Remove an item from the system'',
       inputSchema = None, handler = Some remove_item\<rparr> = Some ''remove_item'' \<and>
   ''remove_item'' \<noteq> [] \<and>
   (\<exists>tools' e.
      registerTool \<lparr>name = Some ''remove_item'', description = Some ''Remove an item from the system'',
        inputSchema = None, handler = Some remove_item\<rparr> [] = Inr tools' \<and>
      map_of tools' ''remove_item'' = Some e \<and> hasTool tools' ''remove_item'' \<and>
      entry_name e = ''remove_item'' \<and> entry_handler e = remove_item \<and>
      entry_description e = ''Remove an item from the system'' \<and>
      entry_inputSchema e = default_inputSchema)"
  using register_then_lookup
    [of "\<lparr>name = Some ''remove_item'', description = Some ''Remove an item from the system'',
          inputSchema = None, handler = Some remove_item\<rparr>" "''remove_item''" remove_item "[]"]
  by simp blast

lemma example_builtin_registry:
  "registerAll [builtin_remove_item] [] =
     [(''remove_item'', \<lparr>entry_name = ''remove_item'',
         entry_description = ''Remove an item from the system'',
         entry_inputSchema = [(''type'', JStr ''object''),
           (''properties'', JObj [(''id'', JObj [(''type'', JStr ''string''),
              (''description'', JStr ''Item ID to remove'')])]),
           (''required'', JArr [JStr ''id''])],
         entry_handler = remove_item\<rparr>)]"
  by (simp add: registerTool_def builtin_remove_item_def description_or_default_def
      inputSchema_or_default_def)

section \<open>Dispatch\<close>

lemma executeTool_registered:
  "map_of tools nm = Some tool \<Longrightarrow>
   executeTool tools nm args w =
     (case entry_handler tool args w of
        (Inr result, w') \<Rightarrow> (Inr result, w')
      | (Inl error, w') \<Rightarrow>
          (case read_message error of
             Inl typeError \<Rightarrow> (Inl typeError, w')
           | Inr m \<Rightarrow>
               (Inl (Error (''Tool '' @ squote nm @ '' execution failed: '' @ m)), w')))"
  by (simp add: executeTool_def)

lemma sublist_squote: "sublist s (xs @ squote s @ ys)"
proof -
  have "xs @ squote s @ ys = (xs @ [CHR 0x27]) @ s @ ([CHR 0x27] @ ys)"
    by (simp add: squote_def)
  then show ?thesis
    by (metis sublist_appendI)
qed

text \<open>
  What \<^verbatim>\<open>executeTool\<close> does when the handler throws an object with a message \<open>m\<close>: it
  rejects with one new error whose message is \<^verbatim>\<open>Tool '<name>' execution failed: <m>\<close>,
  which contains the name and \<open>m\<close>.
\<close>

lemma executeTool_handler_Error:
  assumes "map_of tools nm = Some tool"
    and "entry_handler tool args w = (Inl (Error m), w')"
  shows "\<exists>msg. executeTool tools nm args w = (Inl (Error msg), w') \<and>
           msg = ''Tool '' @ squote nm @ '' execution failed: '' @ m \<and>
           sublist nm msg \<and> sublist m msg \<and> Error msg \<noteq> Error m"
proof -
  let ?msg = "''Tool '' @ squote nm @ '' execution failed: '' @ m"
  have "executeTool tools nm args w = (Inl (Error ?msg), w')"
    using assms by (simp add: executeTool_registered)
  moreover have "sublist nm ?msg"
    by (rule sublist_squote)
  moreover have "sublist m ?msg"
    by (metis sublist_append_leftI append.assoc)
  moreover have "length ?msg \<noteq> length m"
    by simp
  then have "Error ?msg \<noteq> Error m"
    by auto
  ultimately show ?thesis
    by blast
qed

lemma failing_tools_entries:
  "map_of failing_tools ''reject_undefined'' =
     Some \<lparr>entry_name = ''reject_undefined'', entry_description = [],
           entry_inputSchema = default_inputSchema, entry_handler = reject_undefined\<rparr>"
  "map_of failing_tools ''throw_null'' =
     Some \<lparr>entry_name = ''throw_null'', entry_description = [],
           entry_inputSchema = default_inputSchema, entry_handler = throw_null\<rparr>"
  "map_of failing_tools ''throw_string'' =
     Some \<lparr>entry_name = ''throw_string'', entry_description = [],
           entry_inputSchema = default_inputSchema, entry_handler = throw_string\<rparr>"
  by (simp_all add: failing_tools_def registerTool_def description_or_default_def
      inputSchema_or_default_def)

text \<open>
  Claim C1 says that every failure of a registered handler comes out of
  \<^verbatim>\<open>executeTool\<close> as one normalised failure whose message has the name of the operation
  and the message of the original failure. At three registered handlers that fail
  without an \<^verbatim>\<open>Error\<close> object it does not: when the handler rejects with \<^verbatim>\<open>undefined\<close> or
  throws \<^verbatim>\<open>null\<close>, the \<^verbatim>\<open>catch\<close> block itself throws and \<^verbatim>\<open>executeTool\<close> rejects with a
  \<^verbatim>\<open>TypeError\<close> that names no operation; when it throws the string \<^verbatim>\<open>boom\<close>, the message
  is \<^verbatim>\<open>Tool 'throw_string' execution failed: undefined\<close>.
\<close>

theorem executeTool_failure_without_message:
  "executeTool failing_tools ''reject_undefined'' \<lparr>arg_id = ''1''\<rparr> example_world =
     (Inl (Error (''Cannot read properties of undefined (reading '' @ squote ''message'' @ '')'')),
      example_world) \<and>
   executeTool failing_tools ''throw_null'' \<lparr>arg_id = ''1''\<rparr> example_world =
     (Inl (Error (''Cannot read properties of null (reading '' @ squote ''message'' @ '')'')),
      example_world) \<and>
   executeTool failing_tools ''throw_string'' \<lparr>arg_id = ''1''\<rparr> example_world =
     (Inl (Error (''Tool '' @ squote ''throw_string'' @ '' execution failed: undefined'')),
      example_world) \<and>
   \<not> sublist ''reject_undefined''
       (''Cannot read properties of undefined (reading '' @ squote ''message'' @ '')'') \<and>
   \<not> sublist ''boom'' (''Tool '' @ squote ''throw_string'' @ '' execution failed: undefined'')"
proof (intro conjI)
  show "executeTool failing_tools ''reject_undefined'' \<lparr>arg_id = ''1''\<rparr> example_world =
     (Inl (Error (''Cannot read properties of undefined (reading '' @ squote ''message'' @ '')'')),
      example_world)"
    by (simp add: executeTool_def failing_tools_entries reject_undefined_def)
  show "executeTool failing_tools ''throw_null'' \<lparr>arg_id = ''1''\<rparr> example_world =
     (Inl (Error (''Cannot read properties of null (reading '' @ squote ''message'' @ '')'')),
      example_world)"
    by (simp add: executeTool_def failing_tools_entries throw_null_def)
  show "executeTool failing_tools ''throw_string'' \<lparr>arg_id = ''1''\<rparr> example_world =
     (Inl (Error (''Tool '' @ squote ''throw_string'' @ '' execution failed: undefined'')),
      example_world)"
    by (simp add: executeTool_def failing_tools_entries throw_string_def)
  show "\<not> sublist ''reject_undefined''
       (''Cannot read properties of undefined (reading '' @ squote ''message'' @ '')'')"
    by (simp add: squote_def sublist_code)
  show "\<not> sublist ''boom'' (''Tool '' @ squote ''throw_string'' @ '' execution failed: undefined'')"
    by (simp add: squote_def sublist_code)
qed

lemma map_of_traced:
  "map_of (traced tools) nm =
     (case map_of tools nm of
        None \<Rightarrow> None
      | Some e \<Rightarrow>
          Some \<lparr>entry_name = entry_name e,
                entry_description = entry_description e,
                entry_inputSchema = entry_inputSchema e,
                entry_handler = traced_handler nm (entry_handler e)\<rparr>)"
  by (induction tools) (auto simp: traced_def)

text \<open>
  Claim C2. For a name that is not a key of the map, \<^verbatim>\<open>executeTool\<close> rejects with the
  error \<^verbatim>\<open>Tool '<name>' not found\<close> and returns the world as it received it, and no
  handler runs: in the registry whose handlers record their invocations, the record is
  unchanged. (For a name that is a key, the handler stored under it runs once and
  records that name.)
\<close>

theorem executeTool_unknown_name:
  "(map_of tools nm = None \<longrightarrow>
      executeTool tools nm args w = (Inl (Error (''Tool '' @ squote nm @ '' not found'')), w) \<and>
      executeTool (traced tools) nm args (w, calls) =
        (Inl (Error (''Tool '' @ squote nm @ '' not found'')), (w, calls))) \<and>
   (\<forall>e. map_of tools nm = Some e \<longrightarrow>
      snd (snd (executeTool (traced tools) nm args (w, calls))) = calls @ [nm])"
proof (intro conjI allI impI)
  assume "map_of tools nm = None"
  then show "executeTool tools nm args w =
      (Inl (Error (''Tool '' @ squote nm @ '' not found'')), w)"
    by (simp add: executeTool_def)
next
  assume "map_of tools nm = None"
  then show "executeTool (traced tools) nm args (w, calls) =
      (Inl (Error (''Tool '' @ squote nm @ '' not found'')), (w, calls))"
    by (simp add: executeTool_def map_of_traced)
next
  fix e
  assume "map_of tools nm = Some e"
  then show "snd (snd (executeTool (traced tools) nm args (w, calls))) = calls @ [nm]"
    by (simp add: executeTool_def map_of_traced traced_handler_def split: prod.splits sum.splits)
qed

theorem executeTool_unknown_name_witness:
  "map_of (registerAll [builtin_remove_item] []) ''missing'' = None \<and>
   executeTool (registerAll [builtin_remove_item] []) ''missing'' \<lparr>arg_id = ''1700000000000''\<rparr>
       example_world =
     (Inl (Error (''Tool '' @ squote ''missing'' @ '' not found'')), example_world) \<and>
   executeTool (traced (registerAll [builtin_remove_item] [])) ''missing''
       \<lparr>arg_id = ''1700000000000''\<rparr> (example_world, []) =
     (Inl (Error (''Tool '' @ squote ''missing'' @ '' not found'')), (example_world, [])) \<and>
   snd (snd (executeTool (traced (registerAll [builtin_remove_item] [])) ''remove_item''
       \<lparr>arg_id = ''1700000000000''\<rparr> (example_world, []))) = [''remove_item'']"
proof -
  have n: "map_of (registerAll [builtin_remove_item] []) ''missing'' = None"
    unfolding example_builtin_registry by simp
  have s: "\<exists>e. map_of (registerAll [builtin_remove_item] []) ''remove_item'' = Some e"
    unfolding example_builtin_registry by simp
  from executeTool_unknown_name [of "registerAll [builtin_remove_item] []" "''missing''"
      "\<lparr>arg_id = ''1700000000000''\<rparr>" example_world "[]"]
    executeTool_unknown_name [of "registerAll [builtin_remove_item] []" "''remove_item''"
      "\<lparr>arg_id = ''1700000000000''\<rparr>" example_world "[]"]
  show ?thesis
    using n s by (auto simp del: registerAll.simps)
qed

section \<open>Sequences of registrations and the load pass\<close>

lemma registerTool_wellFormed:
  "wellFormed d \<Longrightarrow>
   registerTool d tools =
     Inr (AList.update (info_name (info_of d))
        \<lparr>entry_name = info_name (info_of d),
         entry_description = info_description (info_of d),
         entry_inputSchema = info_inputSchema (info_of d),
         entry_handler = (case handler d of Some h \<Rightarrow> h)\<rparr> tools)"
  by (auto simp: wellFormed_def registerTool_def info_of_def description_or_default_def
      inputSchema_or_default_def split: option.splits)

lemma registerTool_not_wellFormed:
  "\<not> wellFormed d \<Longrightarrow> registerTool d tools = Inl (Error ''Tool must have a name and handler'')"
  by (auto simp: wellFormed_def registerTool_def split: option.splits)

lemma wellFormed_name: "wellFormed d \<Longrightarrow> name d = Some (info_name (info_of d)) \<and> info_name (info_of d) \<noteq> []"
  by (auto simp: wellFormed_def info_of_def split: option.splits)

lemma registry_ok_update:
  "registry_ok tools \<Longrightarrow> entry_name e = k \<Longrightarrow> k \<noteq> [] \<Longrightarrow> registry_ok (AList.update k e tools)"
  unfolding registry_ok_def
proof (induction tools)
  case Nil
  then show ?case by simp
next
  case (Cons p ps)
  then show ?case
    by (auto simp: distinct_update AList.update_keys image_iff)
qed

lemma registry_ok_registerTool:
  "registry_ok tools \<Longrightarrow> registerTool d tools = Inr tools' \<Longrightarrow> registry_ok tools'"
  by (auto simp: registerTool_Inr_iff intro: registry_ok_update)

lemma registry_ok_registerAll: "registry_ok tools \<Longrightarrow> registry_ok (registerAll ds tools)"
proof (induction ds arbitrary: tools)
  case Nil
  then show ?case by simp
next
  case (Cons d ds)
  show ?case
  proof (cases "registerTool d tools")
    case (Inl e)
    with Cons show ?thesis by simp
  next
    case (Inr tools')
    from Cons.prems Inr have "registry_ok tools'"
      by (rule registry_ok_registerTool)
    with Cons.IH Inr show ?thesis by simp
  qed
qed

lemma getTools_update_named:
  assumes "registry_ok tools" and "entry_name e = k"
  shows "filter (\<lambda>i. info_name i = n) (getTools (AList.update k e tools)) =
     (if k = n
      then [\<lparr>info_name = entry_name e, info_description = entry_description e,
             info_inputSchema = entry_inputSchema e\<rparr>]
      else filter (\<lambda>i. info_name i = n) (getTools tools))"
  using assms unfolding registry_ok_def getTools_def
proof (induction tools)
  case Nil
  then show ?case by simp
next
  case (Cons p ps)
  show ?case
  proof (cases "fst p = k")
    case True
    with Cons.prems have "\<forall>q \<in> set ps. entry_name (snd q) \<noteq> k"
      by (auto simp: list_all_iff image_iff)
    then have "filter (\<lambda>i. info_name i = k)
        (map (\<lambda>tool. \<lparr>info_name = entry_name tool, info_description = entry_description tool,
             info_inputSchema = entry_inputSchema tool\<rparr>) (map snd ps)) = []"
      by (auto simp: filter_empty_conv)
    with True Cons.prems show ?thesis
      by (auto simp: filter_empty_conv)
  next
    case False
    with Cons show ?thesis
      by auto
  qed
qed


lemma getTools_registerTool_named:
  assumes "registry_ok tools" and "wellFormed d"
  shows "\<exists>tools'. registerTool d tools = Inr tools' \<and>
     filter (\<lambda>i. info_name i = n) (getTools tools') =
       (if name d = Some n then [info_of d] else filter (\<lambda>i. info_name i = n) (getTools tools))"
  using assms wellFormed_name [of d]
  by (auto simp: registerTool_wellFormed getTools_update_named info_of_def)

lemma registerAll_last_wins:
  "registry_ok tools \<Longrightarrow>
   filter (\<lambda>i. info_name i = n) (getTools (registerAll ds tools)) =
     (case last_named n ds of
        Some d \<Rightarrow> [info_of d]
      | None \<Rightarrow> filter (\<lambda>i. info_name i = n) (getTools tools))"
proof (induction ds arbitrary: tools)
  case Nil
  then show ?case by simp
next
  case (Cons d ds)
  show ?case
  proof (cases "wellFormed d")
    case True
    from getTools_registerTool_named [OF Cons.prems True, of n]
    obtain tools' where r: "registerTool d tools = Inr tools'"
      and f: "filter (\<lambda>i. info_name i = n) (getTools tools') =
       (if name d = Some n then [info_of d] else filter (\<lambda>i. info_name i = n) (getTools tools))"
      by blast
    from Cons.prems r have "registry_ok tools'"
      by (rule registry_ok_registerTool)
    from Cons.IH [OF this] r f True show ?thesis
      by (simp split: option.splits)
  next
    case False
    with Cons show ?thesis
      by (simp add: registerTool_not_wellFormed split: option.splits)
  qed
qed









subsection \<open>The example directory\<close>



















lemma last_named_SomeD:
  "last_named n ds = Some d \<Longrightarrow> d \<in> set ds \<and> wellFormed d \<and> name d = Some n"
  by (induction ds) (auto split: option.splits if_splits)

lemma getTools_names: "registry_ok tools \<Longrightarrow> map info_name (getTools tools) = map fst tools"
  by (induction tools) (auto simp: registry_ok_def getTools_def)

text \<open>
  Claim C10. After any sequence of calls of \<^verbatim>\<open>registerTool\<close> on the empty map, the map
  satisfies its invariant, \<^verbatim>\<open>getTools\<close> returns one element for each key, in order and
  under its name, and each element is what a descriptor of the sequence that has a name
  and a handler gives: its name, its description or \<^verbatim>\<open>''\<close> when it has none, its schema
  or \<^verbatim>\<open>{type: 'object', properties: {}}\<close> when it has none.
\<close>

theorem getTools_entries_complete:
  "registry_ok (registerAll ds []) \<and>
   map info_name (getTools (registerAll ds [])) = map fst (registerAll ds []) \<and>
   (\<forall>i \<in> set (getTools (registerAll ds [])).
      \<exists>d \<in> set ds. \<exists>n h. name d = Some n \<and> n \<noteq> [] \<and> handler d = Some h \<and>
        info_name i = n \<and>
        info_description i = (case description d of None \<Rightarrow> [] | Some s \<Rightarrow> s) \<and>
        info_inputSchema i =
          (case inputSchema d of None \<Rightarrow> default_inputSchema | Some obj \<Rightarrow> obj))"
proof (intro conjI ballI)
  have ok0: "registry_ok ([] :: ('a, 'b, 'c) tools)"
    by (simp add: registry_ok_def)
  have g0: "getTools ([] :: ('a, 'b, 'c) tools) = []"
    by (simp add: getTools_def)
  from ok0 show ok: "registry_ok (registerAll ds ([] :: ('a, 'b, 'c) tools))"
    by (rule registry_ok_registerAll)
  then show "map info_name (getTools (registerAll ds [])) = map fst (registerAll ds [])"
    by (rule getTools_names)
  fix i
  assume i: "i \<in> set (getTools (registerAll ds ([] :: ('a, 'b, 'c) tools)))"
  then have "i \<in> set (filter (\<lambda>j. info_name j = info_name i) (getTools (registerAll ds ([] :: ('a, 'b, 'c) tools))))"
    by simp
  also have "filter (\<lambda>j. info_name j = info_name i) (getTools (registerAll ds ([] :: ('a, 'b, 'c) tools))) =
      (case last_named (info_name i) ds of Some d \<Rightarrow> [info_of d] | None \<Rightarrow> [])"
    using registerAll_last_wins [OF ok0, of "info_name i" ds] unfolding g0 by (simp split: option.splits)
  finally have "i \<in> set (case last_named (info_name i) ds of Some d \<Rightarrow> [info_of d] | None \<Rightarrow> [])" .
  then obtain d where l: "last_named (info_name i) ds = Some d" and id: "i = info_of d"
    by (cases "last_named (info_name i) ds") auto
  from last_named_SomeD [OF l] have d: "d \<in> set ds" "wellFormed d" "name d = Some (info_name i)"
    by simp_all
  from d(2) obtain n h where "name d = Some n" "n \<noteq> []" "handler d = Some h"
    by (auto simp: wellFormed_def split: option.splits)
  with d(1) id show "\<exists>d \<in> set ds. \<exists>n h. name d = Some n \<and> n \<noteq> [] \<and> handler d = Some h \<and>
        info_name i = n \<and>
        info_description i = (case description d of None \<Rightarrow> [] | Some s \<Rightarrow> s) \<and>
        info_inputSchema i =
          (case inputSchema d of None \<Rightarrow> default_inputSchema | Some obj \<Rightarrow> obj)"
    by (intro bexI [of _ d]) (auto simp: info_of_def)
qed

theorem getTools_entries_complete_witness:
  "getTools (registerAll [builtin_remove_item, nameless, custom_b] []) =
     [\<lparr>info_name = ''remove_item'', info_description = [],
       info_inputSchema = default_inputSchema\<rparr>] \<and>
   registry_ok (registerAll [builtin_remove_item, nameless, custom_b] []) \<and>
   map info_name (getTools (registerAll [builtin_remove_item, nameless, custom_b] [])) =
     map fst (registerAll [builtin_remove_item, nameless, custom_b] []) \<and>
   (\<exists>d \<in> set [builtin_remove_item, nameless, custom_b].
      \<exists>n h. name d = Some n \<and> n \<noteq> [] \<and> handler d = Some h \<and> n = ''remove_item'' \<and>
        [] = (case description d of None \<Rightarrow> [] | Some s \<Rightarrow> s) \<and>
        default_inputSchema =
          (case inputSchema d of None \<Rightarrow> default_inputSchema | Some obj \<Rightarrow> obj))"
proof -
  have g: "getTools (registerAll [builtin_remove_item, nameless, custom_b] []) =
     [\<lparr>info_name = ''remove_item'', info_description = [],
       info_inputSchema = default_inputSchema\<rparr>]"
    by (simp add: registerTool_def builtin_remove_item_def nameless_def custom_b_def
        description_or_default_def inputSchema_or_default_def getTools_def)
  from getTools_entries_complete [of "[builtin_remove_item, nameless, custom_b]"]
  show ?thesis
    unfolding g by simp
qed

section \<open>The item handlers\<close>

lemma length_filter_eq_iff: "length (filter P xs) = length xs \<longleftrightarrow> (\<forall>x \<in> set xs. P x)"
proof (induction xs)
  case Nil
  then show ?case by simp
next
  case (Cons x xs)
  have "length (filter P xs) \<noteq> Suc (length xs)"
    using length_filter_le [of P xs] by linarith
  with Cons show ?case
    by simp
qed

text \<open>
  Claim C9. A \<^verbatim>\<open>limit\<close> of \<open>0\<close> is as no \<^verbatim>\<open>limit\<close>, and a \<^verbatim>\<open>filter\<close> of \<^verbatim>\<open>''\<close> is as no
  \<^verbatim>\<open>filter\<close>, whatever the other argument is; with both falsy, \<^verbatim>\<open>list_items\<close> returns
  every stored item and their number, and does not consult the regular-expression
  engine.
\<close>

theorem list_items_falsy_arguments:
  "list_items RegExp (args\<lparr>arg_limit := Some 0\<rparr>) w = list_items RegExp (args\<lparr>arg_limit := None\<rparr>) w \<and>
   list_items RegExp (args\<lparr>arg_filter := Some []\<rparr>) w = list_items RegExp (args\<lparr>arg_filter := None\<rparr>) w \<and>
   list_items RegExp \<lparr>arg_filter = Some [], arg_limit = Some 0\<rparr> w =
     (Inr \<lparr>res_items = (case dataFile w of None \<Rightarrow> [] | Some data \<Rightarrow> data),
           res_count = length (case dataFile w of None \<Rightarrow> [] | Some data \<Rightarrow> data)\<rparr>, w) \<and>
   list_items RegExp \<lparr>arg_filter = None, arg_limit = None\<rparr> w =
     (Inr \<lparr>res_items = (case dataFile w of None \<Rightarrow> [] | Some data \<Rightarrow> data),
           res_count = length (case dataFile w of None \<Rightarrow> [] | Some data \<Rightarrow> data)\<rparr>, w)"
  by (cases "dataFile w") (simp_all add: list_items_def split: option.splits sum.splits)


theorem list_items_falsy_arguments_witness:
  "list_items (\<lambda>p. Inl (Error ''Invalid regular expression'')) \<lparr>arg_filter = Some [], arg_limit = Some 0\<rparr>
     example_world = (Inr \<lparr>res_items = [item_one, item_two], res_count = 2\<rparr>, example_world)"
  using list_items_falsy_arguments
    [of "\<lambda>p. Inl (Error ''Invalid regular expression'')"
      "\<lparr>arg_filter = Some [], arg_limit = Some 0\<rparr>" example_world,
      THEN conjunct2, THEN conjunct2, THEN conjunct1]
  by (simp add: example_world_def)

lemma toString_examples: "toString 1700000000000 = ''1700000000000''"
  by (simp add: toString.simps digit_def)

text \<open>
  Claim C8. When no stored record has the given id, \<^verbatim>\<open>remove_item\<close> throws (the error
  \<^verbatim>\<open>No items found\<close> when the document does not exist, \<^verbatim>\<open>Item with ID '<id>' not found\<close>
  otherwise) and the world, hence the stored collection, is the one it received. When
  some record has the id, the stored collection becomes the earlier one without the
  records of that id, the others kept in their order.
\<close>

theorem remove_item_not_found_leaves_store:
  "(dataFile w = None \<longrightarrow> remove_item args w = (Inl (Error ''No items found''), w)) \<and>
   (\<forall>data. dataFile w = Some data \<and> (\<forall>item \<in> set data. item_id item \<noteq> arg_id args) \<longrightarrow>
      remove_item args w =
        (Inl (Error (''Item with ID '' @ squote (arg_id args) @ '' not found'')), w)) \<and>
   (\<forall>data. dataFile w = Some data \<and> (\<exists>item \<in> set data. item_id item = arg_id args) \<longrightarrow>
      remove_item args w =
        (Inr \<lparr>remove_success = True,
              remove_message = ''Item '' @ squote (arg_id args) @ '' removed successfully''\<rparr>,
         w\<lparr>dataFile := Some (filter (\<lambda>item. item_id item \<noteq> arg_id args) data)\<rparr>) \<and>
      set (filter (\<lambda>item. item_id item \<noteq> arg_id args) data) =
        set data - {item. item_id item = arg_id args} \<and>
      length (filter (\<lambda>item. item_id item \<noteq> arg_id args) data) < length data)"
proof (intro conjI allI impI)
  assume "dataFile w = None"
  then show "remove_item args w = (Inl (Error ''No items found''), w)"
    by (simp add: remove_item_def)
next
  fix data
  assume "dataFile w = Some data \<and> (\<forall>item \<in> set data. item_id item \<noteq> arg_id args)"
  then show "remove_item args w =
      (Inl (Error (''Item with ID '' @ squote (arg_id args) @ '' not found'')), w)"
    by (simp add: remove_item_def length_filter_eq_iff)
next
  fix data
  assume a: "dataFile w = Some data \<and> (\<exists>item \<in> set data. item_id item = arg_id args)"
  then have n: "length (filter (\<lambda>item. item_id item \<noteq> arg_id args) data) \<noteq> length data"
    by (auto simp: length_filter_eq_iff)
  with a show "remove_item args w =
      (Inr \<lparr>remove_success = True,
            remove_message = ''Item '' @ squote (arg_id args) @ '' removed successfully''\<rparr>,
       w\<lparr>dataFile := Some (filter (\<lambda>item. item_id item \<noteq> arg_id args) data)\<rparr>)"
    by (simp add: remove_item_def)
  show "set (filter (\<lambda>item. item_id item \<noteq> arg_id args) data) =
      set data - {item. item_id item = arg_id args}"
    by auto
  from n length_filter_le [of "\<lambda>item. item_id item \<noteq> arg_id args" data]
  show "length (filter (\<lambda>item. item_id item \<noteq> arg_id args) data) < length data"
    by linarith
qed

theorem remove_item_not_found_leaves_store_witness:
  "dataFile example_world = Some [item_one, item_two] \<and>
   item_id item_one \<noteq> ''1700000000001'' \<and> item_id item_two \<noteq> ''1700000000001'' \<and>
   remove_item \<lparr>arg_id = ''1700000000001''\<rparr> example_world =
     (Inl (Error (''Item with ID '' @ squote ''1700000000001'' @ '' not found'')), example_world) \<and>
   remove_item \<lparr>arg_id = ''1700000000000''\<rparr> example_world =
     (Inr \<lparr>remove_success = True,
           remove_message = ''Item '' @ squote ''1700000000000'' @ '' removed successfully''\<rparr>,
      example_world\<lparr>dataFile := Some [item_two]\<rparr>)"
proof -
  have d: "dataFile example_world = Some [item_one, item_two]"
    by (simp add: example_world_def)
  have i: "item_id item_one = ''1700000000000''" "item_id item_two = ''1700000000005''"
    by (simp_all add: item_one_def item_two_def)
  from remove_item_not_found_leaves_store [of example_world "\<lparr>arg_id = ''1700000000001''\<rparr>"]
    remove_item_not_found_leaves_store [of example_world "\<lparr>arg_id = ''1700000000000''\<rparr>"]
  show ?thesis
    using d i by simp
qed

text \<open>
  Claim C7 says that \<^verbatim>\<open>add_item\<close> gives each record a unique id and that two successive
  calls produce distinct ids. The id is the text of \<^verbatim>\<open>Date.now()\<close>: at a store without
  the document, two successive calls while the clock stays within one millisecond both
  succeed and store two records with the same id \<^verbatim>\<open>1700000000000\<close>, and \<^verbatim>\<open>remove_item\<close>
  with that id then deletes both.
\<close>

theorem add_item_same_millisecond_same_id:
  "fst (add_item \<lparr>arg_name = ''A'', arg_description = ''first'', arg_metadata = None\<rparr> stalled_world) =
     Inr \<lparr>add_success = True,
          add_item_of = \<lparr>item_id = ''1700000000000'', item_name = ''A'', item_description = ''first'',
             item_metadata = [], item_createdAt = 1700000000000\<rparr>,
          add_message = ''Item '' @ squote ''A'' @ '' added successfully''\<rparr> \<and>
   fst (add_item \<lparr>arg_name = ''B'', arg_description = ''second'', arg_metadata = None\<rparr>
      (snd (add_item \<lparr>arg_name = ''A'', arg_description = ''first'', arg_metadata = None\<rparr>
         stalled_world))) =
     Inr \<lparr>add_success = True,
          add_item_of = \<lparr>item_id = ''1700000000000'', item_name = ''B'', item_description = ''second'',
             item_metadata = [], item_createdAt = 1700000000000\<rparr>,
          add_message = ''Item '' @ squote ''B'' @ '' added successfully''\<rparr> \<and>
   dataFile (snd (add_item \<lparr>arg_name = ''B'', arg_description = ''second'', arg_metadata = None\<rparr>
      (snd (add_item \<lparr>arg_name = ''A'', arg_description = ''first'', arg_metadata = None\<rparr>
         stalled_world)))) =
     Some [\<lparr>item_id = ''1700000000000'', item_name = ''A'', item_description = ''first'',
            item_metadata = [], item_createdAt = 1700000000000\<rparr>,
           \<lparr>item_id = ''1700000000000'', item_name = ''B'', item_description = ''second'',
            item_metadata = [], item_createdAt = 1700000000000\<rparr>] \<and>
   dataFile (snd (remove_item \<lparr>arg_id = ''1700000000000''\<rparr>
      (snd (add_item \<lparr>arg_name = ''B'', arg_description = ''second'', arg_metadata = None\<rparr>
         (snd (add_item \<lparr>arg_name = ''A'', arg_description = ''first'', arg_metadata = None\<rparr>
            stalled_world)))))) = Some []"
  by (simp add: add_item_def remove_item_def Let_def stalled_world_def toString_examples)

end
